theory Spec2Isabelle
  imports Main "HOL-Library.Sublist"
begin

section \<open>The remote client and the view runtime, as the components see them\<close>

text \<open>
  Every component of the application talks to one shared backend client. A call either
  resolves with an error object or with data; the components read \<open>error.message\<close> only,
  so an error is its message. What a handler does is recorded as the list of events it
  produces: requests sent to the backend, reads and writes of the browser's local
  storage, banners shown through \<open>toast\<close>, and callbacks handed in by the parent
  component. The events are in the order of the statements that cause them; a reload
  that a handler starts without awaiting it (\<open>fetchUsers()\<close>, \<open>fetchUserPoints()\<close>,
  \<open>fetchClaims()\<close>) has its request where it is called and its completion after the
  handler's remaining statements. Numbers that the code handles are whole numbers
  (points, costs, counts) and are integers here.
\<close>

datatype jsval = JNull | JBool bool | JNum int | JStr string

type_synonym jsobj = "(string \<times> jsval) list"

text \<open>
  The requests: a procedure call with its arguments; a read of a table or view with its
  columns, its equality filters and its order (column and ascending); a deletion of the
  rows whose column is among the values (\<open>.in\<close>, or \<open>.eq\<close> with one value); an upsert of rows
  with its conflict columns.
\<close>

datatype remote_call =
    Rpc string jsobj
  | Select string string "(string \<times> jsval) list" "(string \<times> bool) option"
  | Delete string string "jsval list"
  | Upsert string "jsobj list" string

datatype event =
    Remote remote_call
  | LocalGet string
  | LocalSet string
  | Toast string string bool
  | Callback string

datatype 'a response = Failed string | Succeeded 'a

text \<open>A request answered without an error, whatever its data.\<close>

fun answered :: "'a response \<Rightarrow> bool" where
  "answered (Failed e) = False"
| "answered (Succeeded d) = True"

text \<open>The requests among the events of a handler, in order.\<close>

fun calls_of :: "event list \<Rightarrow> remote_call list" where
  "calls_of [] = []"
| "calls_of (Remote c # evs) = c # calls_of evs"
| "calls_of (e # evs) = calls_of evs"

text \<open>JavaScript truthiness of a value, as used by \<open>data ? a : b\<close> and \<open>x || y\<close>.\<close>

fun truthy :: "jsval \<Rightarrow> bool" where
  "truthy JNull = False"
| "truthy (JBool b) = b"
| "truthy (JNum n) = (n \<noteq> 0)"
| "truthy (JStr s) = (s \<noteq> [])"

text \<open>\<open>error.message || fallback\<close>: an empty message is falsy.\<close>

definition message_or :: "string \<Rightarrow> string \<Rightarrow> string" where
  "message_or msg fallback = (if msg = [] then fallback else msg)"

text \<open>Decimal text of an integer, as a template literal renders a whole number.\<close>

definition digit_text :: "nat \<Rightarrow> char" where
  "digit_text d = ''0123456789'' ! (d mod 10)"

fun nat_text :: "nat \<Rightarrow> string" where
  "nat_text n = (if n < 10 then [digit_text n] else nat_text (n div 10) @ [digit_text n])"

definition num_text :: "int \<Rightarrow> string" where
  "num_text i = (if i < 0 then CHR ''-'' # nat_text (nat (- i)) else nat_text (nat i))"

declare nat_text.simps [simp del]

section \<open>Leaderboard: \<open>fetchUsers\<close> (components/leaderboard/leaderboard.tsx)\<close>

text \<open>
  A row of the \<open>profiles_with_points\<close> view. \<open>is_admin\<close> is an optional field of
  \<open>LeaderboardUser\<close>; the filter tests its truthiness.
\<close>

record profile_row =
  row_id :: string
  row_name :: string
  row_points :: int
  row_is_admin :: "bool option"

record leaderboard_user = profile_row +
  rank :: nat

definition flagged_admin :: "'a profile_row_scheme \<Rightarrow> bool" where
  "flagged_admin u = (row_is_admin u = Some True)"

text \<open>
  \<open>data.filter(user => ...)\<close> with the mutable \<open>uniqueUsers\<close> set threaded through the
  calls of the predicate, in list order.
\<close>

fun uniqueUsers_filter :: "string set \<Rightarrow> profile_row list \<Rightarrow> profile_row list" where
  "uniqueUsers_filter uniqueUsers [] = []"
| "uniqueUsers_filter uniqueUsers (user # data) =
     (if row_id user \<in> uniqueUsers \<or> flagged_admin user
      then uniqueUsers_filter uniqueUsers data
      else user # uniqueUsers_filter (insert (row_id user) uniqueUsers) data)"

text \<open>\<open>.map((user, index) => ({...user, rank: index + 1}))\<close>\<close>

definition with_rank :: "nat \<times> profile_row \<Rightarrow> leaderboard_user" where
  "with_rank p = (case p of (index, user) \<Rightarrow>
     \<lparr>row_id = row_id user, row_name = row_name user, row_points = row_points user,
      row_is_admin = row_is_admin user, rank = index + 1\<rparr>)"

definition rankedUsers :: "profile_row list \<Rightarrow> leaderboard_user list" where
  "rankedUsers data = map with_rank (enumerate 0 (uniqueUsers_filter {} data))"

definition profiles_query :: remote_call where
  "profiles_query = Select ''profiles_with_points'' ''*'' [] (Some (''points'', False))"

text \<open>
  \<open>fetchUsers\<close>: the displayed list before, the backend's answer; the displayed list after
  and the events. The request is sent when the function is called; what happens when the
  answer arrives is \<open>fetchUsers_done\<close>. On an error (or when \<open>data\<close> is \<open>null\<close>, where
  \<open>data.filter\<close> throws inside the \<open>try\<close>) the list is left as it was and the banner is
  shown.
\<close>

fun fetchUsers_done ::
  "leaderboard_user list \<Rightarrow> profile_row list option response \<Rightarrow> leaderboard_user list \<times> event list" where
  "fetchUsers_done users (Failed e) = (users, [Toast ''Error'' ''Failed to load leaderboard'' True])"
| "fetchUsers_done users (Succeeded None) = (users, [Toast ''Error'' ''Failed to load leaderboard'' True])"
| "fetchUsers_done users (Succeeded (Some data)) = (rankedUsers data, [])"

definition fetchUsers ::
  "leaderboard_user list \<Rightarrow> profile_row list option response \<Rightarrow> leaderboard_user list \<times> event list" where
  "fetchUsers users r = (fst (fetchUsers_done users r), Remote profiles_query # snd (fetchUsers_done users r))"

text \<open>
  The list the leaderboard is meant to show, written from its description: drop the rows
  flagged as administrators, keep the first row of every user id, number what remains
  from 1.
\<close>

fun first_per_id :: "profile_row list \<Rightarrow> profile_row list" where
  "first_per_id [] = []"
| "first_per_id (u # us) = u # filter (\<lambda>v. row_id v \<noteq> row_id u) (first_per_id us)"

definition leaderboard_rows :: "profile_row list \<Rightarrow> profile_row list" where
  "leaderboard_rows data = first_per_id (filter (\<lambda>u. \<not> flagged_admin u) data)"

definition points_descending :: "'a profile_row_scheme list \<Rightarrow> bool" where
  "points_descending us = sorted_wrt (\<lambda>a b. row_points b \<le> row_points a) us"

section \<open>The signed-in user and the administrator identity\<close>

text \<open>
  The auth hook gives \<open>user\<close>, which is \<open>null\<close> when nobody is signed in; \<open>user.email\<close> is
  an optional string. \<open>import.meta.env.VITE_ADMIN_EMAIL\<close> is a string, or \<open>undefined\<close> when
  the variable is not set. \<open>undefined\<close> is \<open>None\<close> on both sides, so \<open>===\<close> is equality of
  options.
\<close>

record auth_user =
  user_id :: string
  email :: "string option"

text \<open>\<open>user?.email\<close>\<close>

definition optional_email :: "auth_user option \<Rightarrow> string option" where
  "optional_email user = (case user of None \<Rightarrow> None | Some u \<Rightarrow> email u)"

definition default_admin_email :: string where
  "default_admin_email = ''ademmsallem782@gmail.com''"

section \<open>Leaderboard: \<open>addPoints\<close> and the admin controls\<close>

text \<open>\<open>POINT_ADJUSTMENTS\<close>, value and label of each button.\<close>

definition POINT_ADJUSTMENTS :: "(int \<times> string) list" where
  "POINT_ADJUSTMENTS =
     [(-10, ''-10''), (-5, ''-5''), (-1, ''-1''), (1, ''+1''), (5, ''+5''), (10, ''+10'')]"

definition add_points_call :: "string \<Rightarrow> int \<Rightarrow> remote_call" where
  "add_points_call userId pointsToAdd =
     Rpc ''add_points_to_user'' [(''user_uuid'', JStr userId), (''points_to_add'', JNum pointsToAdd)]"

definition notificationMessage :: "int \<Rightarrow> string" where
  "notificationMessage pointsToAdd =
     (if pointsToAdd > 0 then ''You'' @ [CHR 0x27] @ ''ve earned '' @ num_text pointsToAdd @ '' points!''
      else num_text (abs pointsToAdd) @ '' points have been deducted.'')"

definition notificationType :: "int \<Rightarrow> string" where
  "notificationType pointsToAdd = (if pointsToAdd > 0 then ''success'' else ''error'')"

definition create_notification_call :: "string \<Rightarrow> int \<Rightarrow> remote_call" where
  "create_notification_call userId pointsToAdd =
     Rpc ''create_notification''
       [(''user_uuid'', JStr userId), (''message'', JStr (notificationMessage pointsToAdd)),
        (''notification_type'', JStr (notificationType pointsToAdd))]"

text \<open>
  \<open>addPoints(userId, pointsToAdd)\<close> of the \<open>Leaderboard\<close> component. \<open>ADMIN_EMAIL\<close> is the
  environment value. The answers of the backend to the three requests are parameters;
  the answer to \<open>create_notification\<close> is only logged. \<open>fetchUsers()\<close> is started before the
  success banner and completes after it.
\<close>

definition addPoints ::
  "auth_user option \<Rightarrow> string option \<Rightarrow> leaderboard_user list \<Rightarrow> string \<Rightarrow> int \<Rightarrow>
   unit response \<Rightarrow> unit response \<Rightarrow> profile_row list option response \<Rightarrow>
   leaderboard_user list \<times> event list" where
  "addPoints user ADMIN_EMAIL users userId pointsToAdd added notified refreshed =
     (case user of
        None \<Rightarrow> (users, [])
      | Some u \<Rightarrow>
          if email u \<noteq> ADMIN_EMAIL then (users, [])
          else (case added of
                  Failed e \<Rightarrow>
                    (users, [Remote (add_points_call userId pointsToAdd),
                             Toast ''Error'' ''Failed to update points'' True])
                | Succeeded _ \<Rightarrow>
                    (fst (fetchUsers_done users refreshed),
                     [Remote (add_points_call userId pointsToAdd),
                      Remote (create_notification_call userId pointsToAdd),
                      Remote profiles_query,
                      Toast ''Success''
                        (''Points '' @ (if pointsToAdd \<ge> 0 then ''added to'' else ''deducted from'') @ '' user'')
                        False]
                     @ snd (fetchUsers_done users refreshed))))"


text \<open>
  A click on the button \<open>adjustment\<close> in the row of \<open>leaderboardUser\<close>:
  \<open>onClick={() => addPoints(leaderboardUser.id, adjustment.value)}\<close>.
\<close>

definition adjustment_click ::
  "auth_user option \<Rightarrow> string option \<Rightarrow> leaderboard_user list \<Rightarrow> leaderboard_user \<Rightarrow>
   int \<times> string \<Rightarrow> unit response \<Rightarrow> unit response \<Rightarrow> profile_row list option response \<Rightarrow>
   leaderboard_user list \<times> event list" where
  "adjustment_click user ADMIN_EMAIL users leaderboardUser adjustment added notified refreshed =
     addPoints user ADMIN_EMAIL users (row_id leaderboardUser) (fst adjustment) added notified refreshed"

section \<open>Admin panel: \<open>handlePointChange\<close> (second component of leaderboard.tsx)\<close>


definition pointButtons :: "(int \<times> string) list" where
  "pointButtons =
     [(-1, ''-1''), (1, ''+1''), (-5, ''-5''), (5, ''+5''), (-10, ''-10''), (10, ''+10''), (2, ''+2'')]"

definition handlePointChange ::
  "bool \<Rightarrow> bool \<Rightarrow> string \<Rightarrow> int \<Rightarrow> unit response \<Rightarrow> event list" where
  "handlePointChange isAdmin isAuthorizedAdmin userId pointChange added =
     (if \<not> isAdmin \<or> \<not> isAuthorizedAdmin then []
      else (case added of
              Failed e \<Rightarrow>
                [Remote (add_points_call userId pointChange),
                 Toast ''Failed to update points''
                   ''An error occurred while updating points. Please try again.'' True]
            | Succeeded _ \<Rightarrow>
                [Remote (add_points_call userId pointChange),
                 Toast ''Points updated''
                   (num_text (abs pointChange) @ '' points have been ''
                     @ (if pointChange \<ge> 0 then ''added to'' else ''deducted from'') @ '' the user.'')
                   False,
                 Callback ''onPointsUpdated'']))"

section \<open>Shop page: \<open>fetchUserPoints\<close> and \<open>handlePurchase\<close> (pages/shop-page.tsx)\<close>

text \<open>A shop item, with the fields \<open>handlePurchase\<close> reads.\<close>

record shop_item =
  item_id :: string
  item_name :: string
  points_cost :: int

definition fetch_user_points_call :: "auth_user option \<Rightarrow> remote_call" where
  "fetch_user_points_call user =
     Rpc ''fetch_user_points''
       [(''user_uuid'', case user of None \<Rightarrow> JNull | Some u \<Rightarrow> JStr (user_id u))]"

text \<open>\<open>setUserPoints(data || 0)\<close> on success, the banner on an error.\<close>

fun fetchUserPoints_done :: "int \<Rightarrow> int option response \<Rightarrow> int \<times> event list" where
  "fetchUserPoints_done userPoints (Failed e) =
     (userPoints, [Toast ''Error'' ''Failed to load points balance'' True])"
| "fetchUserPoints_done userPoints (Succeeded None) = (0, [])"
| "fetchUserPoints_done userPoints (Succeeded (Some n)) = (n, [])"

definition purchase_call :: "shop_item \<Rightarrow> auth_user \<Rightarrow> remote_call" where
  "purchase_call item u =
     Rpc ''purchase_shop_item''
       [(''item_uuid'', JStr (item_id item)), (''user_uuid'', JStr (user_id u)), (''quantity'', JNum 1)]"

text \<open>
  \<open>handlePurchase(item)\<close>: the displayed balance \<open>userPoints\<close> before; the balance after and
  the events.
\<close>

definition handlePurchase ::
  "auth_user option \<Rightarrow> int \<Rightarrow> shop_item \<Rightarrow> unit response \<Rightarrow> int option response \<Rightarrow>
   int \<times> event list" where
  "handlePurchase user userPoints item purchased balance =
     (case user of
        None \<Rightarrow> (userPoints, [Toast ''Error'' ''Please sign in to make purchases'' True])
      | Some u \<Rightarrow>
          if userPoints < points_cost item
          then (userPoints,
                [Toast ''Insufficient Points''
                   (''You need '' @ num_text (points_cost item)
                     @ '' points to purchase this item. Current balance: ''
                     @ num_text userPoints @ '' points'')
                   True])
          else (case purchased of
                  Failed e \<Rightarrow>
                    (userPoints,
                     [Remote (purchase_call item u),
                      Toast ''Error'' (message_or e ''Failed to purchase item'') True])
                | Succeeded _ \<Rightarrow>
                    (fst (fetchUserPoints_done userPoints balance),
                     [Remote (purchase_call item u),
                      Toast ''Success'' ''Item purchased successfully!'' False,
                      Remote (fetch_user_points_call user)]
                     @ snd (fetchUserPoints_done userPoints balance))))"


section \<open>Claims panel: \<open>handleUpdateStatus\<close> (admin-claims-panel)\<close>

datatype claim_decision = Approved | Rejected

fun decision_text :: "claim_decision \<Rightarrow> string" where
  "decision_text Approved = ''approved''"
| "decision_text Rejected = ''rejected''"

definition update_claim_status_call :: "string \<Rightarrow> claim_decision \<Rightarrow> remote_call" where
  "update_claim_status_call claimId newStatus =
     Rpc ''update_claim_status_with_notification''
       [(''claim_uuid'', JStr claimId), (''new_status'', JStr (decision_text newStatus))]"

definition claims_query :: remote_call where
  "claims_query = Select ''claims_with_user'' ''*'' [] (Some (''created_at'', False))"

text \<open>
  \<open>handleUpdateStatus(claimId, newStatus)\<close>. The reload \<open>fetchClaims()\<close> that follows a
  success sends \<open>claims_query\<close>; of its completion only the banner is kept here, the list
  of claims it stores is not part of the events.
\<close>

definition handleUpdateStatus ::
  "string \<Rightarrow> claim_decision \<Rightarrow> unit response \<Rightarrow> unit response \<Rightarrow> event list" where
  "handleUpdateStatus claimId newStatus updated reloaded =
     (case updated of
        Failed e \<Rightarrow>
          [Remote (update_claim_status_call claimId newStatus),
           Toast ''Error'' (message_or e ''Failed to update claim status'') True]
      | Succeeded _ \<Rightarrow>
          [Remote (update_claim_status_call claimId newStatus),
           Toast ''Success'' (''Claim '' @ decision_text newStatus @ '' successfully!'') False,
           Remote claims_query]
          @ (case reloaded of
               Failed e \<Rightarrow> [Toast ''Error'' (message_or e ''Failed to load claims'') True]
             | Succeeded _ \<Rightarrow> []))"

section \<open>Notifications (notification-item, notifications-center)\<close>

record notification =
  notif_id :: string
  notif_message :: string
  notif_type :: string
  is_read :: bool
  notif_created_at :: string

definition mark_notification_read_call :: "string \<Rightarrow> remote_call" where
  "mark_notification_read_call i = Rpc ''mark_notification_read'' [(''notification_uuid'', JStr i)]"

text \<open>\<open>NotificationItem.handleMarkAsRead\<close>; \<open>onMarkAsRead\<close> is the parent's callback.\<close>

definition item_handleMarkAsRead :: "notification \<Rightarrow> unit response \<Rightarrow> event list" where
  "item_handleMarkAsRead n marked =
     (if is_read n then []
      else (case marked of
              Failed e \<Rightarrow>
                [Remote (mark_notification_read_call (notif_id n)),
                 Toast ''Error'' (message_or e ''Failed to mark notification as read'') True]
            | Succeeded _ \<Rightarrow>
                [Remote (mark_notification_read_call (notif_id n)), Callback ''onMarkAsRead'']))"

text \<open>\<open>NotificationsCenter.handleMarkAsRead(id)\<close>, the callback: local state only.\<close>

definition center_handleMarkAsRead :: "string \<Rightarrow> notification list \<Rightarrow> notification list" where
  "center_handleMarkAsRead i prev = map (\<lambda>n. if notif_id n = i then n\<lparr>is_read := True\<rparr> else n) prev"

text \<open>
  \<open>handleMarkAllAsRead\<close>: one request for each unread notification, in list order; the
  answers are not inspected.
\<close>

definition handleMarkAllAsRead ::
  "auth_user option \<Rightarrow> notification list \<Rightarrow> notification list \<times> event list" where
  "handleMarkAllAsRead user notifications =
     (case user of
        None \<Rightarrow> (notifications, [])
      | Some u \<Rightarrow>
          (let unreadIds = map notif_id (filter (\<lambda>n. \<not> is_read n) notifications)
           in if unreadIds = [] then (notifications, [])
              else (map (\<lambda>n. n\<lparr>is_read := True\<rparr>) notifications,
                    map (\<lambda>i. Remote (mark_notification_read_call i)) unreadIds
                    @ [Toast ''Success'' ''All notifications marked as read'' False])))"

definition notifications_query :: "auth_user \<Rightarrow> remote_call" where
  "notifications_query u =
     Select ''notifications'' ''*'' [(''user_id'', JStr (user_id u))] (Some (''created_at'', False))"

text \<open>\<open>fetchNotifications\<close>: \<open>setNotifications(data || [])\<close>.\<close>

definition fetchNotifications ::
  "auth_user option \<Rightarrow> notification list \<Rightarrow> notification list option response \<Rightarrow>
   notification list \<times> event list" where
  "fetchNotifications user notifications fetched =
     (case user of
        None \<Rightarrow> (notifications, [])
      | Some u \<Rightarrow>
          (case fetched of
             Failed e \<Rightarrow>
               (notifications,
                [Remote (notifications_query u),
                 Toast ''Error'' (message_or e ''Failed to fetch notifications'') True])
           | Succeeded None \<Rightarrow> ([], [Remote (notifications_query u)])
           | Succeeded (Some data) \<Rightarrow> (data, [Remote (notifications_query u)])))"

text \<open>
  The listener registered for \<open>INSERT\<close> on \<open>notifications\<close> with the filter
  \<open>user_id=eq.<id>\<close>; \<open>payload_new\<close> is \<open>payload.new\<close>.
\<close>

definition on_notification_insert ::
  "notification \<Rightarrow> notification list \<Rightarrow> notification list \<times> event list" where
  "on_notification_insert payload_new prev =
     (payload_new # prev, [Toast ''New Notification'' (notif_message payload_new) False])"

definition unreadCount :: "notification list \<Rightarrow> nat" where
  "unreadCount notifications = length (filter (\<lambda>n. \<not> is_read n) notifications)"

section \<open>Borrowings: \<open>toggleVisibility\<close> and \<open>fetchBorrowings\<close>\<close>

text \<open>A borrowing, with the fields the card's handler and its badge read.\<close>

record borrowing =
  borrowing_id :: string
  borrowing_status :: string
  is_hidden :: bool

definition toggle_call :: "borrowing \<Rightarrow> remote_call" where
  "toggle_call b = Rpc ''toggle_borrowing_visibility'' [(''claim_id'', JStr (borrowing_id b))]"

text \<open>
  \<open>BorrowingCard.toggleVisibility\<close>. \<open>onVisibilityChange\<close> is an optional prop; the flag
  says whether the parent passed it.
\<close>

definition toggleVisibility :: "borrowing \<Rightarrow> bool \<Rightarrow> jsval response \<Rightarrow> event list" where
  "toggleVisibility b has_onVisibilityChange toggled =
     (case toggled of
        Failed e \<Rightarrow>
          [Remote (toggle_call b), Toast ''Error'' (message_or e ''Failed to update visibility'') True]
      | Succeeded data \<Rightarrow>
          [Remote (toggle_call b),
           Toast ''Success'' (''Borrowing is now '' @ (if truthy data then ''hidden'' else ''visible'')) False]
          @ (if has_onVisibilityChange then [Callback ''onVisibilityChange''] else []))"

text \<open>The card draws the \<open>Hidden\<close> badge (and the dimmed style) from \<open>borrowing.is_hidden\<close>.\<close>

definition card_shows_hidden :: "borrowing \<Rightarrow> bool" where
  "card_shows_hidden b = is_hidden b"

text \<open>\<open>BorrowingsPage\<close>: \<open>ADMIN_EMAIL\<close> is a string constant in this file.\<close>

definition BorrowingsPage_isAdmin :: "auth_user option \<Rightarrow> bool" where
  "BorrowingsPage_isAdmin user = (optional_email user = Some default_admin_email)"

definition borrowings_call :: "auth_user \<Rightarrow> bool \<Rightarrow> remote_call" where
  "borrowings_call u isAdmin =
     (if isAdmin then Select ''admin_borrowings'' ''*'' [] (Some (''created_at'', False))
      else Rpc ''get_user_borrowings'' [(''user_uuid'', JStr (user_id u))])"

definition fetchBorrowings ::
  "auth_user option \<Rightarrow> borrowing list \<Rightarrow> borrowing list option response \<Rightarrow>
   borrowing list \<times> event list" where
  "fetchBorrowings user borrowings fetched =
     (case user of
        None \<Rightarrow> (borrowings, [])
      | Some u \<Rightarrow>
          (case fetched of
             Failed e \<Rightarrow>
               (borrowings,
                [Remote (borrowings_call u (BorrowingsPage_isAdmin user)),
                 Toast ''Error'' (message_or e ''Failed to load borrowings'') True])
           | Succeeded None \<Rightarrow> ([], [Remote (borrowings_call u (BorrowingsPage_isAdmin user))])
           | Succeeded (Some data) \<Rightarrow>
               (data, [Remote (borrowings_call u (BorrowingsPage_isAdmin user))])))"

text \<open>
  The page renders every card with \<open>onVisibilityChange={fetchBorrowings}\<close>: a toggle on
  the card of \<open>b\<close>, with the callback run where the card invokes it.
\<close>

definition toggle_on_page ::
  "auth_user option \<Rightarrow> borrowing list \<Rightarrow> borrowing \<Rightarrow> jsval response \<Rightarrow>
   borrowing list option response \<Rightarrow> borrowing list \<times> event list" where
  "toggle_on_page user borrowings b toggled fetched =
     (let evs = toggleVisibility b True toggled
      in if Callback ''onVisibilityChange'' \<in> set evs
         then (fst (fetchBorrowings user borrowings fetched),
               evs @ snd (fetchBorrowings user borrowings fetched))
         else (borrowings, evs))"

section \<open>Equipment page: \<open>fetchEquipment\<close> (second component of pages/borrowings-page.tsx)\<close>













section \<open>Local cache and remote store (lib/storage.ts)\<close>
























section \<open>Club configuration page: \<open>addEquipment\<close>\<close>



section \<open>Admin checks of the other components\<close>

text \<open>\<open>ProtectedRoute\<close>: \<open>import.meta.env.VITE_ADMIN_EMAIL || 'ademmsallem782@gmail.com'\<close>\<close>

definition ProtectedRoute_ADMIN_EMAIL :: "string option \<Rightarrow> string" where
  "ProtectedRoute_ADMIN_EMAIL VITE_ADMIN_EMAIL =
     (case VITE_ADMIN_EMAIL of
        None \<Rightarrow> default_admin_email
      | Some s \<Rightarrow> if s = [] then default_admin_email else s)"




text \<open>\<open>UserManagement.fetchUsers\<close>: \<open>currentUser?.email === 'ademmsallem782@gmail.com'\<close>\<close>

definition UserManagement_isAdmin :: "auth_user option \<Rightarrow> bool" where
  "UserManagement_isAdmin currentUser = (optional_email currentUser = Some default_admin_email)"

text \<open>The admin check the environment alone would decide.\<close>

definition env_isAdmin :: "auth_user option \<Rightarrow> string option \<Rightarrow> bool" where
  "env_isAdmin user VITE_ADMIN_EMAIL = (optional_email user = VITE_ADMIN_EMAIL)"

text \<open>The calls named \<open>add_points_to_user\<close> among a list of requests.\<close>

fun is_add_points :: "remote_call \<Rightarrow> bool" where
  "is_add_points (Rpc name args) = (name = ''add_points_to_user'')"
| "is_add_points c = False"

fun is_purchase :: "remote_call \<Rightarrow> bool" where
  "is_purchase (Rpc name args) = (name = ''purchase_shop_item'')"
| "is_purchase c = False"

section \<open>Cart: \<open>addToCart\<close> (shop page), \<open>removeFromCart\<close> and \<open>submitClaim\<close> (cart)\<close>

text \<open>A cart row, with the fields the handlers read.\<close>

record cart_item =
  cart_row_id :: string
  cart_item_id :: string
  cart_quantity :: int






section \<open>Club configuration page: \<open>removeEquipment\<close>\<close>


section \<open>Equipment page: the Borrow button and the borrow form\<close>






section \<open>Admin checks of the remaining components\<close>




text \<open>\<open>UserHeader\<close>: \<open>import.meta.env.VITE_ADMIN_EMAIL || 'ademmsallem782@gmail.com'\<close>\<close>

definition UserHeader_ADMIN_EMAIL :: "string option \<Rightarrow> string" where
  "UserHeader_ADMIN_EMAIL VITE_ADMIN_EMAIL =
     (case VITE_ADMIN_EMAIL of
        None \<Rightarrow> default_admin_email
      | Some s \<Rightarrow> if s = [] then default_admin_email else s)"





section \<open>Concrete inputs used below\<close>

definition sample_rows :: "profile_row list" where
  "sample_rows =
    [\<lparr>row_id = ''root'', row_name = ''Admin'', row_points = 90, row_is_admin = Some True\<rparr>,
     \<lparr>row_id = ''u1'', row_name = ''Amal'', row_points = 40, row_is_admin = Some False\<rparr>,
     \<lparr>row_id = ''u2'', row_name = ''Bilel'', row_points = 25, row_is_admin = None\<rparr>,
     \<lparr>row_id = ''u1'', row_name = ''Amal'', row_points = 25, row_is_admin = None\<rparr>,
     \<lparr>row_id = ''u3'', row_name = ''Chedly'', row_points = 0, row_is_admin = None\<rparr>]"

definition sample_admin :: auth_user where
  "sample_admin = \<lparr>user_id = ''a0'', email = Some ''chef@avclub.tn''\<rparr>"

definition sample_member :: auth_user where
  "sample_member = \<lparr>user_id = ''u1'', email = Some ''amal@avclub.tn''\<rparr>"

definition sample_item :: shop_item where
  "sample_item = \<lparr>item_id = ''mic-1'', item_name = ''Microphone'', points_cost = 5\<rparr>"



definition sample_borrowing :: borrowing where
  "sample_borrowing = \<lparr>borrowing_id = ''c7'', borrowing_status = ''approved'', is_hidden = False\<rparr>"

definition sample_notification :: notification where
  "sample_notification =
     \<lparr>notif_id = ''n2'', notif_message = ''Claim approved'', notif_type = ''success'',
      is_read = False, notif_created_at = ''2025-01-01T10:00:00Z''\<rparr>"






section \<open>Verified properties\<close>

subsection \<open>The leaderboard list\<close>

lemma uniqueUsers_filter_spec:
  "uniqueUsers_filter S data =
     filter (\<lambda>u. row_id u \<notin> S) (first_per_id (filter (\<lambda>u. \<not> flagged_admin u) data))"
proof (induction data arbitrary: S)
  case Nil
  show ?case by simp
next
  case (Cons u data)
  show ?case
  proof (cases "flagged_admin u")
    case True
    then show ?thesis using Cons.IH [of S] by simp
  next
    case False
    show ?thesis
    proof (cases "row_id u \<in> S")
      case True
      have "filter (\<lambda>v. row_id v \<notin> S) (filter (\<lambda>v. row_id v \<noteq> row_id u) xs)
            = filter (\<lambda>v. row_id v \<notin> S) xs" for xs :: "profile_row list"
        using True by (induction xs) auto
      then show ?thesis using Cons.IH [of S] True False by simp
    next
      case notin: False
      have "filter (\<lambda>v. row_id v \<notin> insert (row_id u) S) xs
            = filter (\<lambda>v. row_id v \<notin> S) (filter (\<lambda>v. row_id v \<noteq> row_id u) xs)"
        for xs :: "profile_row list"
        by (induction xs) auto
      then show ?thesis using Cons.IH [of "insert (row_id u) S"] notin False by simp
    qed
  qed
qed

lemma first_per_id_subset: "set (first_per_id us) \<subseteq> set us"
  by (induction us) auto

lemma first_per_id_distinct: "distinct (map row_id (first_per_id us))"
  by (induction us) (auto simp: distinct_map_filter)

lemma first_per_id_ids: "row_id ` set (first_per_id us) = row_id ` set us"
proof (induction us)
  case Nil show ?case by simp
next
  case (Cons u us)
  have "row_id ` set (filter (\<lambda>v. row_id v \<noteq> row_id u) xs) = row_id ` set xs - {row_id u}"
    for xs :: "profile_row list"
    by auto
  then show ?case using Cons.IH by auto
qed

lemma first_per_id_subseq: "subseq (first_per_id us) us"
proof (induction us)
  case Nil show ?case by simp
next
  case (Cons u us)
  have "subseq (filter (\<lambda>v. row_id v \<noteq> row_id u) (first_per_id us)) (first_per_id us)"
    by simp
  then have "subseq (filter (\<lambda>v. row_id v \<noteq> row_id u) (first_per_id us)) us"
    using Cons.IH subseq_order.order_trans by blast
  then show ?case by simp
qed

lemma truncate_with_rank: "profile_row.truncate (with_rank (i, u)) = u"
  by (simp add: with_rank_def profile_row.truncate_def)

lemma truncate_enumerate: "map (\<lambda>p. profile_row.truncate (with_rank p)) (enumerate n us) = us"
  by (induction us arbitrary: n) (simp_all add: truncate_with_rank)

lemma rank_enumerate: "map (\<lambda>p. rank (with_rank p)) (enumerate n us) = [Suc n..<Suc (n + length us)]"
  by (induction us arbitrary: n) (simp_all add: with_rank_def upt_rec)

lemma truncate_rankedUsers: "map profile_row.truncate (rankedUsers data) = uniqueUsers_filter {} data"
  by (simp add: rankedUsers_def o_def truncate_enumerate)

lemma rank_rankedUsers: "map rank (rankedUsers data) = [1..<Suc (length (rankedUsers data))]"
  by (simp add: rankedUsers_def o_def rank_enumerate)

lemma row_id_truncate: "row_id (profile_row.truncate u) = row_id u"
  by (simp add: profile_row.truncate_def)

lemma ids_rankedUsers: "map row_id (rankedUsers data) = map row_id (uniqueUsers_filter {} data)"
  using arg_cong [OF truncate_rankedUsers, of "map row_id"] by (simp add: o_def row_id_truncate)

lemma first_per_id_sorted: "sorted_wrt P us \<Longrightarrow> sorted_wrt P (first_per_id us)"
proof (induction us)
  case Nil show ?case by simp
next
  case (Cons u us)
  then have "sorted_wrt P (first_per_id us)" and all: "\<forall>y\<in>set us. P u y" by simp_all
  then have "sorted_wrt P (filter (\<lambda>v. row_id v \<noteq> row_id u) (first_per_id us))"
    by (simp add: sorted_wrt_filter)
  moreover have "\<forall>y\<in>set (filter (\<lambda>v. row_id v \<noteq> row_id u) (first_per_id us)). P u y"
    using all first_per_id_subset [of us] by auto
  ultimately show ?case by simp
qed

lemma uniqueUsers_filter_rows: "uniqueUsers_filter {} data = leaderboard_rows data"
  by (simp add: uniqueUsers_filter_spec leaderboard_rows_def)

lemma leaderboard_rows_descending:
  "points_descending data \<Longrightarrow> points_descending (leaderboard_rows data)"
  unfolding points_descending_def leaderboard_rows_def
  by (intro first_per_id_sorted sorted_wrt_filter)

lemma points_descending_truncate:
  "points_descending (map profile_row.truncate us) = points_descending us"
  by (simp add: points_descending_def sorted_wrt_map profile_row.truncate_def)

lemma flagged_admin_truncate: "flagged_admin (profile_row.truncate u) = flagged_admin u"
  by (simp add: flagged_admin_def profile_row.truncate_def)

text \<open>
  C10. For every list of rows that the \<open>profiles_with_points\<close> read returns, the list that
  \<open>fetchUsers\<close> displays is the list of its description (administrator rows dropped, the
  first row of each user id kept): no user id occurs twice, no displayed row is flagged
  \<open>is_admin\<close>, every user id of a row that is not flagged is displayed, the rows are in
  the order of the backend (so descending by points when the backend's rows are), and
  the rank of each displayed row is its position counted from 1, the ranks being
  \<open>1..n\<close>.
\<close>

theorem fetchUsers_unique_ranked:
  "(let shown = fst (fetchUsers users (Succeeded (Some data))) in
      map profile_row.truncate shown = leaderboard_rows data
    \<and> distinct (map row_id shown)
    \<and> (\<forall>u \<in> set shown. \<not> flagged_admin u)
    \<and> row_id ` set shown = row_id ` {u \<in> set data. \<not> flagged_admin u}
    \<and> subseq (map profile_row.truncate shown) data
    \<and> (points_descending data \<longrightarrow> points_descending shown)
    \<and> map rank shown = [1..<Suc (length shown)]
    \<and> (\<forall>i < length shown. rank (shown ! i) = i + 1))"
proof -
  let ?shown = "rankedUsers data"
  have rows: "map profile_row.truncate ?shown = leaderboard_rows data"
    by (simp add: truncate_rankedUsers uniqueUsers_filter_rows)
  have ids: "map row_id ?shown = map row_id (leaderboard_rows data)"
    by (simp add: ids_rankedUsers uniqueUsers_filter_rows)
  have dist: "distinct (map row_id ?shown)"
    unfolding ids leaderboard_rows_def by (rule first_per_id_distinct)
  have "\<forall>u \<in> set (leaderboard_rows data). \<not> flagged_admin u"
    unfolding leaderboard_rows_def using first_per_id_subset by fastforce
  then have "\<forall>u \<in> set (map profile_row.truncate ?shown). \<not> flagged_admin u"
    by (simp only: rows)
  then have noadm: "\<forall>u \<in> set ?shown. \<not> flagged_admin u"
    by (simp add: flagged_admin_truncate)
  have "set (map row_id ?shown) = row_id ` {u \<in> set data. \<not> flagged_admin u}"
    unfolding ids leaderboard_rows_def by (simp add: first_per_id_ids)
  then have cover: "row_id ` set ?shown = row_id ` {u \<in> set data. \<not> flagged_admin u}"
    by simp
  have "subseq (first_per_id (filter (\<lambda>u. \<not> flagged_admin u) data)) data"
    using first_per_id_subseq subseq_filter_left subseq_order.order_trans by blast
  then have sub: "subseq (map profile_row.truncate ?shown) data"
    by (simp add: rows leaderboard_rows_def)
  have desc: "points_descending data \<longrightarrow> points_descending ?shown"
    using leaderboard_rows_descending [of data] points_descending_truncate [of ?shown]
    by (simp add: rows)
  have ranks: "map rank ?shown = [1..<Suc (length ?shown)]"
    by (rule rank_rankedUsers)
  have nth: "\<forall>i < length ?shown. rank (?shown ! i) = i + 1"
  proof (intro allI impI)
    fix i assume i: "i < length ?shown"
    then have "rank (?shown ! i) = map rank ?shown ! i" by simp
    also have "\<dots> = [1..<Suc (length ?shown)] ! i" by (simp only: ranks)
    also have "\<dots> = i + 1" using i nth_upt [of 1 i "Suc (length ?shown)"] by (simp del: upt_Suc)
    finally show "rank (?shown ! i) = i + 1" .
  qed
  have shown: "fst (fetchUsers users (Succeeded (Some data))) = ?shown"
    by (simp add: fetchUsers_def)
  show ?thesis
    unfolding Let_def shown
    using rows dist noadm cover sub desc ranks nth by blast
qed

lemma sample_shown: "rankedUsers sample_rows =
    [\<lparr>row_id = ''u1'', row_name = ''Amal'', row_points = 40, row_is_admin = Some False, rank = 1\<rparr>,
     \<lparr>row_id = ''u2'', row_name = ''Bilel'', row_points = 25, row_is_admin = None, rank = 2\<rparr>,
     \<lparr>row_id = ''u3'', row_name = ''Chedly'', row_points = 0, row_is_admin = None, rank = 3\<rparr>]"
  by (simp add: sample_rows_def rankedUsers_def with_rank_def flagged_admin_def enumerate_eq_zip upt_rec)

theorem fetchUsers_unique_ranked_witness:
  "points_descending sample_rows
   \<and> points_descending (fst (fetchUsers [] (Succeeded (Some sample_rows))))
   \<and> map rank (fst (fetchUsers [] (Succeeded (Some sample_rows)))) = [1, 2, 3]
   \<and> map row_id (fst (fetchUsers [] (Succeeded (Some sample_rows)))) = [''u1'', ''u2'', ''u3'']"
proof -
  have d: "points_descending sample_rows"
    by (simp add: sample_rows_def points_descending_def)
  from fetchUsers_unique_ranked [of "[]" sample_rows] d
  have "points_descending (fst (fetchUsers [] (Succeeded (Some sample_rows))))"
    by (simp add: Let_def)
  with d show ?thesis by (simp add: fetchUsers_def sample_shown)
qed

subsection \<open>Point adjustments\<close>

lemma calls_of_append: "calls_of (xs @ ys) = calls_of xs @ calls_of ys"
  by (induction xs rule: calls_of.induct) simp_all

lemma calls_of_fetchUsers_done: "calls_of (snd (fetchUsers_done users r)) = []"
  by (cases "(users, r)" rule: fetchUsers_done.cases) simp_all

lemma calls_of_fetchUserPoints_done: "calls_of (snd (fetchUserPoints_done p r)) = []"
  by (cases "(p, r)" rule: fetchUserPoints_done.cases) simp_all

lemma addPoints_calls:
  "email u = ADMIN_EMAIL \<Longrightarrow>
   calls_of (snd (addPoints (Some u) ADMIN_EMAIL users userId v added notified refreshed)) =
     add_points_call userId v
       # (if answered added then [create_notification_call userId v, profiles_query] else [])"
  by (cases added)
     (simp_all add: addPoints_def calls_of_append calls_of_fetchUsers_done)

lemma handlePointChange_calls:
  "calls_of (handlePointChange True True userId v added) = [add_points_call userId v]"
  by (cases added) (simp_all add: handlePointChange_def)

lemma POINT_ADJUSTMENTS_values: "fst ` set POINT_ADJUSTMENTS = {-10, -5, -1, 1, 5, 10}"
  by (simp add: POINT_ADJUSTMENTS_def)

text \<open>
  C1. For every adjustment button of the leaderboard's admin controls (the values
  \<open>-10, -5, -1, 1, 5, 10\<close>) and every row it is clicked in, when the signed-in user is the
  administrator the client sends \<open>add_points_to_user\<close> exactly once, for the user of the
  row, with \<open>points_to_add\<close> the signed value of the button, unchanged; the admin panel's
  \<open>handlePointChange\<close> does the same in admin mode.
\<close>

theorem addPoints_exact_signed_value:
  assumes "email u = ADMIN_EMAIL" and "adjustment \<in> set POINT_ADJUSTMENTS"
  shows "filter is_add_points
           (calls_of (snd (adjustment_click (Some u) ADMIN_EMAIL users leaderboardUser adjustment
                             added notified refreshed)))
         = [Rpc ''add_points_to_user''
              [(''user_uuid'', JStr (row_id leaderboardUser)), (''points_to_add'', JNum (fst adjustment))]]
       \<and> fst adjustment \<in> {-10, -5, -1, 1, 5, 10}
       \<and> filter is_add_points (calls_of (handlePointChange True True userId (fst adjustment) added))
         = [Rpc ''add_points_to_user''
              [(''user_uuid'', JStr userId), (''points_to_add'', JNum (fst adjustment))]]"
proof -
  have "fst adjustment \<in> fst ` set POINT_ADJUSTMENTS"
    using assms(2) by (rule imageI)
  then have v: "fst adjustment \<in> {-10, -5, -1, 1, 5, 10}"
    by (simp only: POINT_ADJUSTMENTS_values)
  have click: "filter is_add_points
           (calls_of (snd (adjustment_click (Some u) ADMIN_EMAIL users leaderboardUser adjustment
                             added notified refreshed)))
         = [add_points_call (row_id leaderboardUser) (fst adjustment)]"
    unfolding adjustment_click_def addPoints_calls [OF assms(1)]
    by (simp add: add_points_call_def create_notification_call_def profiles_query_def)
  have panel: "filter is_add_points (calls_of (handlePointChange True True userId (fst adjustment) added))
         = [add_points_call userId (fst adjustment)]"
    unfolding handlePointChange_calls by (simp add: add_points_call_def)
  show ?thesis
    using v click panel by (simp add: add_points_call_def)
qed

theorem addPoints_exact_signed_value_witness:
  "email sample_admin = Some ''chef@avclub.tn''
   \<and> (-5, ''-5'') \<in> set POINT_ADJUSTMENTS
   \<and> filter is_add_points
        (calls_of (snd (adjustment_click (Some sample_admin) (Some ''chef@avclub.tn'') []
                          (with_rank (0, hd sample_rows)) (-5, ''-5'')
                          (Succeeded ()) (Succeeded ()) (Succeeded (Some sample_rows)))))
      = [Rpc ''add_points_to_user'' [(''user_uuid'', JStr ''root''), (''points_to_add'', JNum (-5))]]"
proof -
  have a: "email sample_admin = Some ''chef@avclub.tn''"
    by (simp add: sample_admin_def)
  have b: "(-5, ''-5'') \<in> set POINT_ADJUSTMENTS"
    by (simp add: POINT_ADJUSTMENTS_def)
  have c: "row_id (with_rank (0, hd sample_rows)) = ''root''"
    by (simp add: with_rank_def sample_rows_def)
  from addPoints_exact_signed_value [OF a b, of "[]" "with_rank (0, hd sample_rows)"
      "Succeeded ()" "Succeeded ()" "Succeeded (Some sample_rows)" "''u1''"]
  show ?thesis using a b c by simp
qed

subsection \<open>Purchases\<close>

lemma handlePurchase_blocked:
  "userPoints < points_cost item \<Longrightarrow>
   handlePurchase (Some u) userPoints item purchased balance =
     (userPoints,
      [Toast ''Insufficient Points''
         (''You need '' @ num_text (points_cost item)
           @ '' points to purchase this item. Current balance: '' @ num_text userPoints @ '' points'')
         True])"
  by (simp add: handlePurchase_def)

lemma handlePurchase_calls:
  "calls_of (snd (handlePurchase (Some u) userPoints item purchased balance)) =
     (if userPoints < points_cost item then []
      else purchase_call item u
             # (if answered purchased then [fetch_user_points_call (Some u)] else []))"
  by (cases purchased)
     (simp_all add: handlePurchase_def calls_of_append calls_of_fetchUserPoints_done)

text \<open>
  C2. For every purchase attempt of a signed-in user: when the displayed balance is
  below the item's \<open>points_cost\<close> the handler stops at the banner
  \<open>Insufficient Points\<close>, the balance is left as displayed and no request at all is sent;
  \<open>purchase_shop_item\<close> is sent exactly when the displayed balance is at least the cost, and
  then it is the first request.
\<close>

theorem handlePurchase_insufficient_blocked:
  "(userPoints < points_cost item \<longrightarrow>
      calls_of (snd (handlePurchase (Some u) userPoints item purchased balance)) = []
      \<and> fst (handlePurchase (Some u) userPoints item purchased balance) = userPoints
      \<and> (\<exists>description. snd (handlePurchase (Some u) userPoints item purchased balance)
            = [Toast ''Insufficient Points'' description True]))
   \<and> ((\<exists>c \<in> set (calls_of (snd (handlePurchase (Some u) userPoints item purchased balance))).
          is_purchase c) = (points_cost item \<le> userPoints))
   \<and> (points_cost item \<le> userPoints \<longrightarrow>
        (\<exists>rest. calls_of (snd (handlePurchase (Some u) userPoints item purchased balance))
           = Rpc ''purchase_shop_item''
               [(''item_uuid'', JStr (item_id item)), (''user_uuid'', JStr (user_id u)),
                (''quantity'', JNum 1)] # rest
           \<and> \<not> (\<exists>c \<in> set rest. is_purchase c)))"
proof (cases "userPoints < points_cost item")
  case True
  then show ?thesis
    by (simp add: handlePurchase_calls handlePurchase_blocked)
next
  case False
  then show ?thesis
    by (simp add: handlePurchase_calls purchase_call_def fetch_user_points_call_def)
qed

theorem handlePurchase_insufficient_blocked_witness:
  "(3::int) < points_cost sample_item
   \<and> handlePurchase (Some sample_member) 3 sample_item (Succeeded ()) (Succeeded (Some 3))
       = (3, [Toast ''Insufficient Points''
                ''You need 5 points to purchase this item. Current balance: 3 points'' True])
   \<and> points_cost sample_item \<le> 5
   \<and> calls_of (snd (handlePurchase (Some sample_member) 5 sample_item (Succeeded ()) (Succeeded (Some 0))))
       = [purchase_call sample_item sample_member, fetch_user_points_call (Some sample_member)]"
proof -
  have t3: "num_text 3 = ''3''" and t5: "num_text 5 = ''5''"
    by (simp_all add: num_text_def nat_text.simps digit_text_def)
  have low: "(3::int) < points_cost sample_item" and enough: "points_cost sample_item \<le> 5"
    by (simp_all add: sample_item_def)
  from handlePurchase_insufficient_blocked
    [of 3 sample_item sample_member "Succeeded ()" "Succeeded (Some 3)"] low
  have "calls_of (snd (handlePurchase (Some sample_member) 3 sample_item (Succeeded ())
          (Succeeded (Some 3)))) = []"
    by blast
  moreover have "handlePurchase (Some sample_member) 3 sample_item (Succeeded ()) (Succeeded (Some 3))
       = (3, [Toast ''Insufficient Points''
                ''You need 5 points to purchase this item. Current balance: 3 points'' True])"
    using low by (simp add: handlePurchase_def t3 t5 sample_item_def)
  moreover have "calls_of (snd (handlePurchase (Some sample_member) 5 sample_item (Succeeded ())
          (Succeeded (Some 0))))
       = [purchase_call sample_item sample_member, fetch_user_points_call (Some sample_member)]"
    using enough by (simp add: handlePurchase_calls)
  ultimately show ?thesis using low enough by simp
qed

subsection \<open>Requests per operation\<close>

lemma handleUpdateStatus_calls:
  "calls_of (handleUpdateStatus claimId newStatus updated reloaded) =
     update_claim_status_call claimId newStatus # (if answered updated then [claims_query] else [])"
  by (cases updated; cases reloaded) (simp_all add: handleUpdateStatus_def)

lemma item_handleMarkAsRead_calls:
  "calls_of (item_handleMarkAsRead n marked) =
     (if is_read n then [] else [mark_notification_read_call (notif_id n)])"
  by (cases marked) (simp_all add: item_handleMarkAsRead_def)

text \<open>
  C5 (as amended). A purchase that is not blocked sends \<open>purchase_shop_item\<close> and, after
  it succeeded, re-reads the balance with \<open>fetch_user_points\<close>; approving or rejecting a
  claim sends \<open>update_claim_status_with_notification\<close> and, after it succeeded, re-reads the
  claims; marking an unread notification as read sends \<open>mark_notification_read\<close> alone; the
  admin panel's point change sends \<open>add_points_to_user\<close> alone. The leaderboard's point
  adjustment sends \<open>add_points_to_user\<close> and, after it succeeded, a separate
  \<open>create_notification\<close> request, then re-reads the leaderboard.
\<close>

theorem requests_per_operation:
  "(points_cost item \<le> userPoints \<longrightarrow>
      calls_of (snd (handlePurchase (Some u) userPoints item purchased balance))
        = purchase_call item u # (if answered purchased then [fetch_user_points_call (Some u)] else []))
   \<and> calls_of (handleUpdateStatus claimId newStatus updated reloaded)
        = update_claim_status_call claimId newStatus # (if answered updated then [claims_query] else [])
   \<and> (\<not> is_read n \<longrightarrow>
        calls_of (item_handleMarkAsRead n marked) = [mark_notification_read_call (notif_id n)])
   \<and> calls_of (handlePointChange True True userId v added) = [add_points_call userId v]
   \<and> (email admin = ADMIN_EMAIL \<longrightarrow>
        calls_of (snd (addPoints (Some admin) ADMIN_EMAIL users userId v added notified refreshed))
          = add_points_call userId v
              # (if answered added then [create_notification_call userId v, profiles_query] else []))"
  by (simp add: handlePurchase_calls handleUpdateStatus_calls item_handleMarkAsRead_calls
        handlePointChange_calls addPoints_calls)

theorem requests_per_operation_witness:
  "points_cost sample_item \<le> 7
   \<and> calls_of (snd (handlePurchase (Some sample_member) 7 sample_item (Failed ''out of stock'')
                      (Succeeded None)))
      = [purchase_call sample_item sample_member]
   \<and> \<not> is_read sample_notification
   \<and> calls_of (item_handleMarkAsRead sample_notification (Succeeded ()))
      = [mark_notification_read_call ''n2'']
   \<and> email sample_admin = Some ''chef@avclub.tn''
   \<and> calls_of (snd (addPoints (Some sample_admin) (Some ''chef@avclub.tn'') [] ''u2'' 1
                      (Failed ''denied'') (Succeeded ()) (Succeeded None)))
      = [add_points_call ''u2'' 1]"
proof -
  have a: "points_cost sample_item \<le> 7" by (simp add: sample_item_def)
  have b: "\<not> is_read sample_notification" and i: "notif_id sample_notification = ''n2''"
    by (simp_all add: sample_notification_def)
  have c: "email sample_admin = Some ''chef@avclub.tn''" by (simp add: sample_admin_def)
  from requests_per_operation [of sample_item 7 sample_member "Failed ''out of stock''"
      "Succeeded None" "''c1''" Approved "Succeeded ()" "Succeeded ()" sample_notification
      "Succeeded ()" "''u2''" 1 "Failed ''denied''" sample_admin "Some ''chef@avclub.tn''" "[]"
      "Succeeded ()" "Succeeded None"] a b c i
  show ?thesis by simp
qed

text \<open>
  The claim as stated fails on the leaderboard's point adjustment: one click sends the
  adjustment and a notification-creation request (and a re-read).
\<close>

theorem addPoints_sends_notification_too:
  "calls_of (snd (addPoints (Some sample_admin) (Some ''chef@avclub.tn'') [] ''u1'' 5
                    (Succeeded ()) (Succeeded ()) (Succeeded (Some []))))
   = [Rpc ''add_points_to_user'' [(''user_uuid'', JStr ''u1''), (''points_to_add'', JNum 5)],
      Rpc ''create_notification''
        [(''user_uuid'', JStr ''u1''), (''message'', JStr (notificationMessage 5)),
         (''notification_type'', JStr ''success'')],
      Select ''profiles_with_points'' ''*'' [] (Some (''points'', False))]"
  by (simp add: addPoints_calls sample_admin_def add_points_call_def create_notification_call_def
        profiles_query_def notificationType_def)

subsection \<open>Local preconditions of the write handlers\<close>












subsection \<open>The local cache\<close>
















subsection \<open>The equipment fallback chain\<close>









subsection \<open>Borrowing visibility\<close>

lemma toggleVisibility_completed:
  "toggleVisibility b True (Succeeded (JBool r)) =
     [Remote (toggle_call b),
      Toast ''Success'' (''Borrowing is now '' @ (if r then ''hidden'' else ''visible'')) False,
      Callback ''onVisibilityChange'']"
  by (simp add: toggleVisibility_def)

lemma fetchBorrowings_events:
  "\<exists>after. snd (fetchBorrowings (Some u) borrowings fetched)
             = Remote (borrowings_call u (BorrowingsPage_isAdmin (Some u))) # after
           \<and> calls_of after = []
           \<and> (\<forall>t \<in> set after. \<exists>e. t = Toast ''Error'' (message_or e ''Failed to load borrowings'') True)"
proof (cases fetched)
  case (Failed e)
  then show ?thesis by (auto simp add: fetchBorrowings_def)
next
  case (Succeeded d)
  then show ?thesis by (cases d) (simp_all add: fetchBorrowings_def)
qed

lemma toggle_on_page_completed:
  "toggle_on_page (Some u) borrowings b (Succeeded (JBool r)) fetched =
      (fst (fetchBorrowings (Some u) borrowings fetched),
       [Remote (toggle_call b),
        Toast ''Success'' (''Borrowing is now '' @ (if r then ''hidden'' else ''visible'')) False,
        Callback ''onVisibilityChange''] @ snd (fetchBorrowings (Some u) borrowings fetched))"
  unfolding toggle_on_page_def toggleVisibility_completed Let_def by simp

text \<open>
  C7 (as amended). For every completed \<open>toggle_borrowing_visibility\<close> call that returns the
  boolean \<open>r\<close>, on the borrowings page of a signed-in user: the banner reads
  \<open>Borrowing is now hidden\<close> if and only if \<open>r\<close> is true and \<open>Borrowing is now visible\<close> if and
  only if \<open>r\<close> is false, and the page then re-reads the borrowings with one request. When
  that read succeeds, the displayed list becomes the rows read (the empty list for
  \<open>null\<close>) and every card is drawn hidden exactly when its re-read row has \<open>is_hidden\<close>. When
  that read fails, the displayed list, and with it the hidden rendering of every card,
  stays as it was before the toggle, and the error banner is shown last.
\<close>

theorem toggleVisibility_banner_and_reload:
  assumes "toggled = Succeeded (JBool r)"
  shows "(\<exists>after. snd (toggle_on_page (Some u) borrowings b toggled fetched)
            = [Remote (toggle_call b),
               Toast ''Success'' (''Borrowing is now '' @ (if r then ''hidden'' else ''visible'')) False,
               Callback ''onVisibilityChange'',
               Remote (borrowings_call u (BorrowingsPage_isAdmin (Some u)))] @ after
            \<and> calls_of after = [])
       \<and> (Toast ''Success'' ''Borrowing is now hidden'' False
             \<in> set (snd (toggle_on_page (Some u) borrowings b toggled fetched))) = r
       \<and> (Toast ''Success'' ''Borrowing is now visible'' False
             \<in> set (snd (toggle_on_page (Some u) borrowings b toggled fetched))) = (\<not> r)
       \<and> (fetched = Succeeded (Some data) \<longrightarrow>
            fst (toggle_on_page (Some u) borrowings b toggled fetched) = data
            \<and> map card_shows_hidden (fst (toggle_on_page (Some u) borrowings b toggled fetched))
                = map is_hidden data)
       \<and> (fetched = Succeeded None \<longrightarrow>
            fst (toggle_on_page (Some u) borrowings b toggled fetched) = [])
       \<and> (fetched = Failed e \<longrightarrow>
            fst (toggle_on_page (Some u) borrowings b toggled fetched) = borrowings
            \<and> map card_shows_hidden (fst (toggle_on_page (Some u) borrowings b toggled fetched))
                = map is_hidden borrowings
            \<and> last (snd (toggle_on_page (Some u) borrowings b toggled fetched))
                = Toast ''Error'' (message_or e ''Failed to load borrowings'') True)"
proof -
  note page = toggle_on_page_completed [of u borrowings b r fetched]
  obtain after where refresh:
      "snd (fetchBorrowings (Some u) borrowings fetched)
         = Remote (borrowings_call u (BorrowingsPage_isAdmin (Some u))) # after"
      "calls_of after = []"
      "\<forall>t \<in> set after. \<exists>e. t = Toast ''Error'' (message_or e ''Failed to load borrowings'') True"
    using fetchBorrowings_events [of u borrowings fetched] by blast
  have events: "snd (toggle_on_page (Some u) borrowings b toggled fetched)
            = [Remote (toggle_call b),
               Toast ''Success'' (''Borrowing is now '' @ (if r then ''hidden'' else ''visible'')) False,
               Callback ''onVisibilityChange'',
               Remote (borrowings_call u (BorrowingsPage_isAdmin (Some u)))] @ after"
    unfolding assms page refresh(1) by simp
  have hidden: "(Toast ''Success'' ''Borrowing is now hidden'' False
             \<in> set (snd (toggle_on_page (Some u) borrowings b toggled fetched))) = r"
    unfolding events using refresh(3) by auto
  have visible: "(Toast ''Success'' ''Borrowing is now visible'' False
             \<in> set (snd (toggle_on_page (Some u) borrowings b toggled fetched))) = (\<not> r)"
    unfolding events using refresh(3) by auto
  have cards: "map card_shows_hidden bs = map is_hidden bs" for bs
    by (simp add: card_shows_hidden_def)
  have read: "fetched = Succeeded (Some data) \<longrightarrow>
            fst (toggle_on_page (Some u) borrowings b toggled fetched) = data"
    unfolding assms page by (simp add: fetchBorrowings_def)
  have null: "fetched = Succeeded None \<longrightarrow>
            fst (toggle_on_page (Some u) borrowings b toggled fetched) = []"
    unfolding assms page by (simp add: fetchBorrowings_def)
  have failed: "fetched = Failed e \<longrightarrow>
            fst (toggle_on_page (Some u) borrowings b toggled fetched) = borrowings
            \<and> last (snd (toggle_on_page (Some u) borrowings b toggled fetched))
                = Toast ''Error'' (message_or e ''Failed to load borrowings'') True"
    unfolding assms page by (simp add: fetchBorrowings_def)
  show ?thesis
    using events refresh(2) hidden visible read null failed cards by metis
qed

theorem toggleVisibility_banner_and_reload_witness:
  "snd (toggle_on_page (Some sample_member) [sample_borrowing] sample_borrowing
          (Succeeded (JBool True)) (Succeeded (Some [sample_borrowing\<lparr>is_hidden := True\<rparr>])))
     = [Remote (toggle_call sample_borrowing), Toast ''Success'' ''Borrowing is now hidden'' False,
        Callback ''onVisibilityChange'',
        Remote (Rpc ''get_user_borrowings'' [(''user_uuid'', JStr ''u1'')])]
   \<and> map card_shows_hidden
        (fst (toggle_on_page (Some sample_member) [sample_borrowing] sample_borrowing
               (Succeeded (JBool True)) (Succeeded (Some [sample_borrowing\<lparr>is_hidden := True\<rparr>]))))
     = [True]"
proof -
  from toggleVisibility_banner_and_reload [where toggled = "Succeeded (JBool True)" and r = True
      and u = sample_member and borrowings = "[sample_borrowing]" and b = sample_borrowing
      and fetched = "Succeeded (Some [sample_borrowing\<lparr>is_hidden := True\<rparr>])"
      and data = "[sample_borrowing\<lparr>is_hidden := True\<rparr>]" and e = "[]"]
  have "map card_shows_hidden
        (fst (toggle_on_page (Some sample_member) [sample_borrowing] sample_borrowing
               (Succeeded (JBool True)) (Succeeded (Some [sample_borrowing\<lparr>is_hidden := True\<rparr>]))))
        = map is_hidden [sample_borrowing\<lparr>is_hidden := True\<rparr>]"
    by blast
  moreover have "snd (toggle_on_page (Some sample_member) [sample_borrowing] sample_borrowing
          (Succeeded (JBool True)) (Succeeded (Some [sample_borrowing\<lparr>is_hidden := True\<rparr>])))
     = [Remote (toggle_call sample_borrowing), Toast ''Success'' ''Borrowing is now hidden'' False,
        Callback ''onVisibilityChange'',
        Remote (Rpc ''get_user_borrowings'' [(''user_uuid'', JStr ''u1'')])]"
    by (simp add: toggle_on_page_def toggleVisibility_def fetchBorrowings_def borrowings_call_def
          BorrowingsPage_isAdmin_def optional_email_def sample_member_def default_admin_email_def)
  ultimately show ?thesis by simp
qed

text \<open>
  The claim as stated fails when the re-read of the borrowings fails: the call returned
  \<open>true\<close> and the banner says hidden, but the card of the borrowing is still drawn as not
  hidden, from the list as it was before the toggle.
\<close>

theorem toggle_reload_failed_card_unchanged:
  "Toast ''Success'' ''Borrowing is now hidden'' False
     \<in> set (snd (toggle_on_page (Some sample_member) [sample_borrowing] sample_borrowing
                    (Succeeded (JBool True)) (Failed ''timeout'')))
   \<and> fst (toggle_on_page (Some sample_member) [sample_borrowing] sample_borrowing
            (Succeeded (JBool True)) (Failed ''timeout'')) = [sample_borrowing]
   \<and> card_shows_hidden sample_borrowing = False"
  by (simp add: toggle_on_page_completed fetchBorrowings_def card_shows_hidden_def
        sample_borrowing_def)

subsection \<open>Realtime notifications\<close>

text \<open>
  C8. For every row delivered by the realtime \<open>INSERT\<close> listener and every list displayed
  at that moment, the list displayed afterwards is the delivered row followed by the old
  list, the only event is the \<open>New Notification\<close> banner, no request is sent to the backend
  (so the list is not fetched again), and the unread count grows by one when the delivered
  row is unread and stays when it is already read.
\<close>

theorem realtime_insert_updates_in_place:
  "fst (on_notification_insert payload_new prev) = payload_new # prev
   \<and> snd (on_notification_insert payload_new prev)
       = [Toast ''New Notification'' (notif_message payload_new) False]
   \<and> calls_of (snd (on_notification_insert payload_new prev)) = []
   \<and> unreadCount (fst (on_notification_insert payload_new prev))
       = unreadCount prev + (if is_read payload_new then 0 else 1)"
  by (simp add: on_notification_insert_def unreadCount_def)

theorem realtime_insert_updates_in_place_witness:
  "fst (on_notification_insert sample_notification [sample_notification\<lparr>notif_id := ''n1''\<rparr>])
     = [sample_notification, sample_notification\<lparr>notif_id := ''n1''\<rparr>]
   \<and> unreadCount [sample_notification\<lparr>notif_id := ''n1''\<rparr>] = 1
   \<and> unreadCount (fst (on_notification_insert sample_notification
                          [sample_notification\<lparr>notif_id := ''n1''\<rparr>])) = 2"
proof -
  have one: "unreadCount [sample_notification\<lparr>notif_id := ''n1''\<rparr>] = 1"
    and unread: "\<not> is_read sample_notification"
    by (simp_all add: unreadCount_def sample_notification_def)
  from realtime_insert_updates_in_place
    [of sample_notification "[sample_notification\<lparr>notif_id := ''n1''\<rparr>]"] one unread
  have "unreadCount (fst (on_notification_insert sample_notification
                          [sample_notification\<lparr>notif_id := ''n1''\<rparr>]))
        = unreadCount [sample_notification\<lparr>notif_id := ''n1''\<rparr>]
          + (if is_read sample_notification then 0 else 1)"
    by blast
  then have "unreadCount (fst (on_notification_insert sample_notification
                          [sample_notification\<lparr>notif_id := ''n1''\<rparr>])) = 2"
    using one unread by simp
  then show ?thesis using one by (simp add: on_notification_insert_def)
qed

subsection \<open>The administrator identity\<close>

lemma ProtectedRoute_ADMIN_EMAIL_set:
  "s \<noteq> [] \<Longrightarrow> ProtectedRoute_ADMIN_EMAIL (Some s) = s"
  by (simp add: ProtectedRoute_ADMIN_EMAIL_def)

lemma UserHeader_ADMIN_EMAIL_set:
  "s \<noteq> [] \<Longrightarrow> UserHeader_ADMIN_EMAIL (Some s) = s"
  by (simp add: UserHeader_ADMIN_EMAIL_def)





text \<open>
  The checks that compare with the built-in address do not follow the environment: with
  the variable set to another address, the user with that address is not an administrator
  on the borrowings page or in the user management panel, and the user with the built-in
  address is.
\<close>

lemma BorrowingsPage_ignores_environment:
  "env_isAdmin (Some sample_admin) (Some ''chef@avclub.tn'')
   \<and> \<not> BorrowingsPage_isAdmin (Some sample_admin)
   \<and> \<not> UserManagement_isAdmin (Some sample_admin)
   \<and> BorrowingsPage_isAdmin (Some \<lparr>user_id = ''a1'', email = Some ''ademmsallem782@gmail.com''\<rparr>)"
  by (simp add: env_isAdmin_def BorrowingsPage_isAdmin_def UserManagement_isAdmin_def
        optional_email_def sample_admin_def default_admin_email_def)

end
